theory Spec2Isabelle
  imports Complex_Main
begin

text \<open>
  A model of the spreadsheet pipeline of the Excel analytics server: the processing of an
  uploaded workbook (\<^verbatim>\<open>routes/files.js\<close>), the reading of a worksheet, the transformation of
  records into chart data and insights, the creation of a chart, and the routes that read,
  update and delete an analytics document (the router of \<^verbatim>\<open>/api/analytics\<close>). Functions keep their
  names; a route is a function from its inputs to its response and, where it writes, the
  store it leaves. The spreadsheet library and the document store are outside: what they
  return is an argument of the function that calls them.
\<close>

section \<open>JavaScript values\<close>

text \<open>
  A JavaScript number is NaN, an infinity or a finite value. Finite values are modelled
  by their exact real value: binary64 rounding, overflow and the sign of zero are
  idealised away, the special values are kept because the code branches on them
  (\<^verbatim>\<open>parseFloat(v) || 0\<close>).
\<close>

datatype jsnum = NaN | Fin real | PInf | NInf

text \<open>
  A cell value of a row produced by \<^verbatim>\<open>XLSX.utils.sheet_to_json\<close>, or the result of
  reading a field the row does not have (\<^verbatim>\<open>undefined\<close>).
\<close>

datatype cell = Undefined | Null | Bool bool | Num real | Str string

fun js_add :: "jsnum \<Rightarrow> jsnum \<Rightarrow> jsnum" where
  "js_add NaN _ = NaN"
| "js_add _ NaN = NaN"
| "js_add (Fin a) (Fin b) = Fin (a + b)"
| "js_add PInf NInf = NaN"
| "js_add NInf PInf = NaN"
| "js_add PInf _ = PInf"
| "js_add _ PInf = PInf"
| "js_add NInf _ = NInf"
| "js_add _ NInf = NInf"

fun js_neg :: "jsnum \<Rightarrow> jsnum" where
  "js_neg NaN = NaN"
| "js_neg (Fin a) = Fin (- a)"
| "js_neg PInf = NInf"
| "js_neg NInf = PInf"

definition js_sub :: "jsnum \<Rightarrow> jsnum \<Rightarrow> jsnum" where
  "js_sub a b = js_add a (js_neg b)"

definition signed_inf :: "bool \<Rightarrow> jsnum" where
  "signed_inf positive = (if positive then PInf else NInf)"

fun js_mul :: "jsnum \<Rightarrow> jsnum \<Rightarrow> jsnum" where
  "js_mul NaN _ = NaN"
| "js_mul _ NaN = NaN"
| "js_mul (Fin a) (Fin b) = Fin (a * b)"
| "js_mul (Fin a) PInf = (if a = 0 then NaN else signed_inf (0 < a))"
| "js_mul (Fin a) NInf = (if a = 0 then NaN else signed_inf (a < 0))"
| "js_mul PInf (Fin b) = (if b = 0 then NaN else signed_inf (0 < b))"
| "js_mul NInf (Fin b) = (if b = 0 then NaN else signed_inf (b < 0))"
| "js_mul PInf PInf = PInf"
| "js_mul PInf NInf = NInf"
| "js_mul NInf PInf = NInf"
| "js_mul NInf NInf = PInf"

text \<open>Division; a zero divisor is the positive zero (the code only divides by array lengths).\<close>

fun js_div :: "jsnum \<Rightarrow> jsnum \<Rightarrow> jsnum" where
  "js_div NaN _ = NaN"
| "js_div _ NaN = NaN"
| "js_div (Fin a) (Fin b) =
     (if b = 0 then (if a = 0 then NaN else signed_inf (0 < a)) else Fin (a / b))"
| "js_div (Fin a) PInf = Fin 0"
| "js_div (Fin a) NInf = Fin 0"
| "js_div PInf (Fin b) = signed_inf (0 \<le> b)"
| "js_div NInf (Fin b) = signed_inf (b < 0)"
| "js_div PInf PInf = NaN"
| "js_div PInf NInf = NaN"
| "js_div NInf PInf = NaN"
| "js_div NInf NInf = NaN"

text \<open>The comparison \<^verbatim>\<open>a > b\<close>: false as soon as one side is NaN.\<close>

fun js_gt :: "jsnum \<Rightarrow> jsnum \<Rightarrow> bool" where
  "js_gt NaN _ = False"
| "js_gt _ NaN = False"
| "js_gt (Fin a) (Fin b) = (b < a)"
| "js_gt PInf PInf = False"
| "js_gt PInf _ = True"
| "js_gt NInf _ = False"
| "js_gt (Fin a) PInf = False"
| "js_gt (Fin a) NInf = True"

definition js_lt :: "jsnum \<Rightarrow> jsnum \<Rightarrow> bool" where
  "js_lt a b = js_gt b a"

fun math_abs :: "jsnum \<Rightarrow> jsnum" where
  "math_abs NaN = NaN"
| "math_abs (Fin a) = Fin \<bar>a\<bar>"
| "math_abs PInf = PInf"
| "math_abs NInf = PInf"

fun math_sqrt :: "jsnum \<Rightarrow> jsnum" where
  "math_sqrt NaN = NaN"
| "math_sqrt (Fin a) = (if a < 0 then NaN else Fin (sqrt a))"
| "math_sqrt PInf = PInf"
| "math_sqrt NInf = NaN"

text \<open>\<^verbatim>\<open>Math.pow(v, 2)\<close>.\<close>

fun math_pow2 :: "jsnum \<Rightarrow> jsnum" where
  "math_pow2 NaN = NaN"
| "math_pow2 (Fin a) = Fin (a\<^sup>2)"
| "math_pow2 PInf = PInf"
| "math_pow2 NInf = PInf"

text \<open>Truthiness of a number and the operator \<^verbatim>\<open>a || b\<close> on numbers.\<close>

fun js_truthy :: "jsnum \<Rightarrow> bool" where
  "js_truthy NaN = False"
| "js_truthy (Fin a) = (a \<noteq> 0)"
| "js_truthy PInf = True"
| "js_truthy NInf = True"

definition js_or :: "jsnum \<Rightarrow> jsnum \<Rightarrow> jsnum" where
  "js_or a b = (if js_truthy a then a else b)"

text \<open>
  \<^verbatim>\<open>Math.max(...values)\<close> and \<^verbatim>\<open>Math.min(...values)\<close>: NaN as soon as a value is NaN, and
  \<open>-\<infinity>\<close> and \<open>+\<infinity>\<close> on no values.
\<close>

definition greater_of :: "jsnum \<Rightarrow> jsnum \<Rightarrow> jsnum" where
  "greater_of a b = (if a = NaN \<or> b = NaN then NaN else if js_gt b a then b else a)"

definition smaller_of :: "jsnum \<Rightarrow> jsnum \<Rightarrow> jsnum" where
  "smaller_of a b = (if a = NaN \<or> b = NaN then NaN else if js_gt a b then b else a)"

definition math_max :: "jsnum list \<Rightarrow> jsnum" where
  "math_max vs = foldl greater_of NInf vs"

definition math_min :: "jsnum list \<Rightarrow> jsnum" where
  "math_min vs = foldl smaller_of PInf vs"

subsection \<open>parseFloat\<close>

text \<open>
  \<^verbatim>\<open>parseFloat\<close> converts its argument to a string, skips leading white space and reads
  the longest prefix that is a decimal literal: an optional sign, then \<^verbatim>\<open>Infinity\<close> or
  digits with an optional fraction and an optional exponent. No such prefix gives NaN.
  Strings are byte strings, so the white space skipped is the ASCII white space.
\<close>

definition is_digit :: "char \<Rightarrow> bool" where
  "is_digit c = (48 \<le> (of_char c :: nat) \<and> (of_char c :: nat) \<le> 57)"

definition is_space :: "char \<Rightarrow> bool" where
  "is_space c = ((of_char c :: nat) \<in> {9, 10, 11, 12, 13, 32})"

definition digits_value :: "string \<Rightarrow> nat" where
  "digits_value ds = foldl (\<lambda>acc c. 10 * acc + ((of_char c :: nat) - 48)) 0 ds"

definition pow10 :: "int \<Rightarrow> real" where
  "pow10 e = (if 0 \<le> e then 10 ^ nat e else 1 / 10 ^ nat (- e))"

text \<open>The exponent part \<^verbatim>\<open>e\<close>, sign, digits; anything else is not part of the literal.\<close>

definition exponent_part :: "string \<Rightarrow> int" where
  "exponent_part s =
     (case s of
        [] \<Rightarrow> 0
      | c # r \<Rightarrow>
          if c = CHR ''e'' \<or> c = CHR ''E'' then
            (case r of
               [] \<Rightarrow> 0
             | d # r' \<Rightarrow>
                 if d = CHR ''-'' then
                   (if takeWhile is_digit r' = [] then 0
                    else - int (digits_value (takeWhile is_digit r')))
                 else if d = CHR ''+'' then int (digits_value (takeWhile is_digit r'))
                 else int (digits_value (takeWhile is_digit r)))
          else 0)"

definition unsigned_literal :: "string \<Rightarrow> jsnum" where
  "unsigned_literal s =
     (if take 8 s = ''Infinity'' then PInf
      else
        let ip = takeWhile is_digit s;
            r1 = dropWhile is_digit s;
            fp = (case r1 of [] \<Rightarrow> [] | c # r \<Rightarrow>
                    if c = CHR ''.'' then takeWhile is_digit r else []);
            r2 = (case r1 of [] \<Rightarrow> [] | c # r \<Rightarrow>
                    if c = CHR ''.'' then dropWhile is_digit r else r1)
        in if ip = [] \<and> fp = [] then NaN
           else Fin (real (digits_value (ip @ fp)) / 10 ^ length fp * pow10 (exponent_part r2)))"

definition parse_float_string :: "string \<Rightarrow> jsnum" where
  "parse_float_string s =
     (case dropWhile is_space s of
        [] \<Rightarrow> NaN
      | c # r \<Rightarrow>
          if c = CHR ''-'' then js_neg (unsigned_literal r)
          else if c = CHR ''+'' then unsigned_literal r
          else unsigned_literal (c # r))"

text \<open>
  On a number the conversion to a string and back is the identity; \<^verbatim>\<open>undefined\<close>,
  \<^verbatim>\<open>null\<close> and the booleans become strings that hold no literal.
\<close>

fun parseFloat :: "cell \<Rightarrow> jsnum" where
  "parseFloat Undefined = NaN"
| "parseFloat Null = NaN"
| "parseFloat (Bool b) = NaN"
| "parseFloat (Num r) = Fin r"
| "parseFloat (Str s) = parse_float_string s"

subsection \<open>Rows and string conversion\<close>

text \<open>
  A row is a plain object: its own properties in insertion order, with distinct names.
  Reading a property the row does not have gives \<^verbatim>\<open>undefined\<close>. Column names that are
  also names of properties inherited from \<^verbatim>\<open>Object.prototype\<close> are outside the model.
\<close>

type_synonym row = "(string \<times> cell) list"

definition row_get :: "row \<Rightarrow> string \<Rightarrow> cell" where
  "row_get r k = (case map_of r k of None \<Rightarrow> Undefined | Some v \<Rightarrow> v)"

text \<open>
  The string form of a value, as a template literal or a property key takes it. The string
  form of a number that is not an integer depends on the binary64 format, so the builtin
  \<^verbatim>\<open>Number.prototype.toString\<close> is a parameter \<open>nts\<close> of everything that renders numbers.
\<close>

fun to_string :: "(real \<Rightarrow> string) \<Rightarrow> cell \<Rightarrow> string" where
  "to_string nts Undefined = ''undefined''"
| "to_string nts Null = ''null''"
| "to_string nts (Bool b) = (if b then ''true'' else ''false'')"
| "to_string nts (Num r) = nts r"
| "to_string nts (Str s) = s"

text \<open>Decimal digits of a natural number, and the string form of an integer below \<open>10\<^sup>2\<^sup>1\<close>.\<close>

fun nat_string :: "nat \<Rightarrow> string" where
  "nat_string n =
     (if n < 10 then [''0123456789'' ! n]
      else nat_string (n div 10) @ [''0123456789'' ! (n mod 10)])"

declare nat_string.simps [simp del]

definition int_string :: "int \<Rightarrow> string" where
  "int_string i = (if i < 0 then CHR ''-'' # nat_string (nat (- i)) else nat_string (nat i))"

definition integer_string :: "real \<Rightarrow> string" where
  "integer_string r = int_string \<lfloor>r\<rfloor>"

text \<open>
  \<^verbatim>\<open>x.toFixed(2)\<close>: the multiple of one hundredth nearest to the exact value, the larger one
  on a tie, printed with two decimals; a magnitude of \<open>10\<^sup>2\<^sup>1\<close> or more is printed as
  \<^verbatim>\<open>toString\<close> does.
\<close>

definition two_decimals :: "nat \<Rightarrow> string" where
  "two_decimals n =
     (let m = nat_string n;
          padded = replicate (3 - length m) CHR ''0'' @ m
      in take (length padded - 2) padded @ ''.'' @ drop (length padded - 2) padded)"

fun toFixed2 :: "(real \<Rightarrow> string) \<Rightarrow> jsnum \<Rightarrow> string" where
  "toFixed2 nts NaN = ''NaN''"
| "toFixed2 nts PInf = ''Infinity''"
| "toFixed2 nts NInf = ''-Infinity''"
| "toFixed2 nts (Fin r) =
     (if \<bar>r\<bar> \<ge> 10 ^ 21 then nts r
      else (if r < 0 then ''-'' else []) @ two_decimals (nat \<lfloor>\<bar>r\<bar> * 100 + 1 / 2\<rfloor>))"

subsection \<open>Plain objects\<close>

text \<open>
  A plain object used as a dictionary: its own properties in the order of their creation.
  \<^verbatim>\<open>Object.keys\<close> and \<^verbatim>\<open>Object.values\<close> list the properties whose name is an array index
  (the canonical decimal form of an integer below \<open>2\<^sup>3\<^sup>2 - 1\<close>) first, in ascending numeric
  order, and then the other properties in creation order.
\<close>

fun obj_set :: "string \<Rightarrow> 'v \<Rightarrow> (string \<times> 'v) list \<Rightarrow> (string \<times> 'v) list" where
  "obj_set k v [] = [(k, v)]"
| "obj_set k v (p # ps) = (if fst p = k then (k, v) # ps else p # obj_set k v ps)"

definition is_array_index :: "string \<Rightarrow> bool" where
  "is_array_index k =
     (k \<noteq> [] \<and> list_all is_digit k \<and> (k = ''0'' \<or> hd k \<noteq> CHR ''0'') \<and>
      digits_value k < 4294967295)"

definition own_entries :: "(string \<times> 'v) list \<Rightarrow> (string \<times> 'v) list" where
  "own_entries obj =
     sort_key (\<lambda>p. digits_value (fst p)) (filter (\<lambda>p. is_array_index (fst p)) obj) @
     filter (\<lambda>p. \<not> is_array_index (fst p)) obj"

definition object_keys :: "(string \<times> 'v) list \<Rightarrow> string list" where
  "object_keys obj = map fst (own_entries obj)"

definition object_values :: "(string \<times> 'v) list \<Rightarrow> 'v list" where
  "object_values obj = map snd (own_entries obj)"

text \<open>The names every plain object inherits from \<^verbatim>\<open>Object.prototype\<close>.\<close>

definition inherited_names :: "string list" where
  "inherited_names =
     [''constructor'', ''toString'', ''toLocaleString'', ''valueOf'', ''hasOwnProperty'',
      ''isPrototypeOf'', ''propertyIsEnumerable'', ''__proto__'', ''__defineGetter__'',
      ''__defineSetter__'', ''__lookupGetter__'', ''__lookupSetter__'']"

section \<open>Chart Data Transformer\<close>

record axis =
  column :: string
  label :: string

text \<open>
  An entry of a series: a number, a point \<^verbatim>\<open>{x, y, z}\<close>, or a string. A string only arises
  in the accumulator of the proportional charts, when the sum is taken with a member
  inherited from \<^verbatim>\<open>Object.prototype\<close>; its text is not modelled.
\<close>

datatype datum = Number jsnum | Point jsnum jsnum jsnum | Text

record dataset =
  label_ds :: string
  data_ds :: "datum list"
  backgroundColor :: "string list"
  borderColor :: string
  borderWidth :: nat

record chart_data =
  labels :: "cell list"
  datasets :: "dataset list"

text \<open>\<^verbatim>\<open>parseFloat(v) || 0\<close>\<close>

definition num_or_zero :: "cell \<Rightarrow> jsnum" where
  "num_or_zero v = js_or (parseFloat v) (Fin 0)"

text \<open>
  One step of the aggregation
  \<^verbatim>\<open>aggregated[key] = (aggregated[key] || 0) + value\<close>.
  The read finds an own property, else an inherited member (an object, truthy), else
  \<^verbatim>\<open>undefined\<close>; adding a number to a string or an object gives a string; the write to
  \<^verbatim>\<open>__proto__\<close> with a string is ignored.
\<close>

definition aggregate_step ::
  "(real \<Rightarrow> string) \<Rightarrow> axis \<Rightarrow> axis \<Rightarrow> (string \<times> datum) list \<Rightarrow> row \<Rightarrow> (string \<times> datum) list" where
  "aggregate_step nts xAxis yAxis aggregated row =
     (let key = to_string nts (row_get row (column xAxis));
          value = num_or_zero (row_get row (column yAxis))
      in case map_of aggregated key of
           Some (Number n) \<Rightarrow> obj_set key (Number (js_add (js_or n (Fin 0)) value)) aggregated
         | Some _ \<Rightarrow> obj_set key Text aggregated
         | None \<Rightarrow>
             if key = ''__proto__'' then aggregated
             else if key \<in> set inherited_names then obj_set key Text aggregated
             else obj_set key (Number (js_add (Fin 0) value)) aggregated)"

text \<open>\<^verbatim>\<open>zAxis && zAxis.column\<close>\<close>

definition has_z :: "axis option \<Rightarrow> bool" where
  "has_z zAxis = (case zAxis of None \<Rightarrow> False | Some z \<Rightarrow> column z \<noteq> [])"

definition processChartData ::
  "(real \<Rightarrow> string) \<Rightarrow> row list \<Rightarrow> string \<Rightarrow> axis \<Rightarrow> axis \<Rightarrow> axis option \<Rightarrow>
     string list option \<Rightarrow> chart_data" where
  "processChartData nts data chartType xAxis yAxis zAxis colors =
     (let labels0 = map (\<lambda>row. row_get row (column xAxis)) data;
          yData = map (\<lambda>row. num_or_zero (row_get row (column yAxis))) data;
          series0 = \<lparr> label_ds = (if label yAxis \<noteq> [] then label yAxis else column yAxis),
                      data_ds = map Number yData,
                      backgroundColor = (case colors of Some cs \<Rightarrow> cs | None \<Rightarrow> [''#3498db'']),
                      borderColor = (case colors of
                                       Some (c # cs) \<Rightarrow> if c \<noteq> [] then c else ''#3498db''
                                     | _ \<Rightarrow> ''#3498db''),
                      borderWidth = 2 \<rparr>;
          series1 =
            (case zAxis of
               None \<Rightarrow> series0
             | Some z \<Rightarrow>
                 if column z \<noteq> [] then
                   let zData = map (\<lambda>row. num_or_zero (row_get row (column z))) data
                   in series0 \<lparr> data_ds :=
                        map (\<lambda>index. Point (js_or (parseFloat (row_get (data ! index) (column xAxis)))
                                                  (Fin (real index)))
                                            (yData ! index) (zData ! index))
                            [0 ..< length data] \<rparr>
                 else series0)
      in if chartType = ''pie'' \<or> chartType = ''doughnut'' then
           let aggregated = foldl (aggregate_step nts xAxis yAxis) [] data
           in \<lparr> labels = map Str (object_keys aggregated),
                datasets =
                  [series1 \<lparr> data_ds := object_values aggregated,
                             backgroundColor :=
                               (case colors of
                                  Some cs \<Rightarrow> cs
                                | None \<Rightarrow> [''#3498db'', ''#e74c3c'', ''#2ecc71'', ''#f39c12'',
                                           ''#9b59b6'', ''#1abc9c'', ''#34495e'', ''#e67e22'',
                                           ''#95a5a6'', ''#9c88ff'']) \<rparr>] \<rparr>
         else \<lparr> labels = labels0, datasets = [series1] \<rparr>)"

section \<open>Insight Generator\<close>

record insights =
  summary :: string
  trends :: "string list"
  correlations :: "string list"
  outliers :: "string list"
  aiGenerated :: bool

text \<open>\<^verbatim>\<open>values.reduce((sum, val) => sum + val, 0) / values.length\<close>\<close>

definition average :: "jsnum list \<Rightarrow> jsnum" where
  "average vs = js_div (foldl (\<lambda>sum val. js_add sum val) (Fin 0) vs) (Fin (real (length vs)))"

definition generateInsights ::
  "(real \<Rightarrow> string) \<Rightarrow> row list \<Rightarrow> axis \<Rightarrow> axis \<Rightarrow> axis option \<Rightarrow> insights" where
  "generateInsights nts data xAxis yAxis zAxis =
     (let yValues = map (\<lambda>row. num_or_zero (row_get row (column yAxis))) data;
          mean = average yValues;
          max = math_max yValues;
          min = math_min yValues;
          summary1 = ''Dataset contains '' @ nat_string (length data) @ '' records. '' @
                     column yAxis @ '' ranges from '' @ toFixed2 nts min @ '' to '' @
                     toFixed2 nts max @ '' with an average of '' @ toFixed2 nts mean @ ''.'';
          trends1 =
            (if length yValues > 1 then
               let firstHalf = take (length yValues div 2) yValues;
                   secondHalf = drop (length yValues div 2) yValues;
                   firstAvg = average firstHalf;
                   secondAvg = average secondHalf
               in if js_gt secondAvg (js_mul firstAvg (Fin (11 / 10)))
                  then [''Upward trend detected in the data'']
                  else if js_lt secondAvg (js_mul firstAvg (Fin (9 / 10)))
                  then [''Downward trend detected in the data'']
                  else [''Relatively stable trend in the data'']
             else []);
          stdDev = math_sqrt (js_div
                     (foldl (\<lambda>sum val. js_add sum (math_pow2 (js_sub val mean))) (Fin 0) yValues)
                     (Fin (real (length yValues))));
          flagged = map fst (filter
                      (\<lambda>(row, value). js_gt (math_abs (js_sub value mean)) (js_mul (Fin 2) stdDev))
                      (zip data yValues))
      in \<lparr> summary = summary1,
           trends = trends1,
           correlations = [],
           outliers =
             (if length flagged > 0
              then map (\<lambda>row. to_string nts (row_get row (column xAxis)) @ '': '' @
                                 to_string nts (row_get row (column yAxis))) flagged
              else []),
           aiGenerated = False \<rparr>)"

section \<open>Workbook Parser and ingestion\<close>

text \<open>
  A sheet as the spreadsheet library presents it: the occupied range \<^verbatim>\<open>!ref\<close>, kept decoded
  (zero-based rows and columns of its two corners; absent on a sheet without cells), and the
  value \<^verbatim>\<open>v\<close> of each cell object by row and column.
\<close>

record range =
  s_r :: int
  s_c :: int
  e_r :: int
  e_c :: int

record sheet =
  ref :: "range option"
  cells :: "int \<times> int \<Rightarrow> cell option"

record workbook =
  SheetNames :: "string list"
  Sheets :: "string \<Rightarrow> sheet option"

record worksheet_summary =
  name :: string
  rowCount :: int
  columnCount :: int
  columns :: "cell list"

record metadata =
  totalRows :: int
  totalColumns :: jsnum
  worksheetCount :: nat
  createdDate :: nat
  modifiedDate :: nat

datatype file_status = processing | completed | error

text \<open>The fields of the file record that the modelled routes read or write.\<close>

record file_record =
  filePath :: string
  uploadedBy :: string
  isPublic :: bool
  status :: file_status
  processingError :: "string option"
  worksheets :: "worksheet_summary list"
  metadata :: "metadata option"

text \<open>\<^verbatim>\<open>decode_range(worksheet['!ref'] || 'A1:A1')\<close>\<close>

definition decoded_range :: "sheet \<Rightarrow> range" where
  "decoded_range ws =
     (case ref ws of Some r \<Rightarrow> r | None \<Rightarrow> \<lparr> s_r = 0, s_c = 0, e_r = 0, e_c = 0 \<rparr>)"

text \<open>The header loop \<^verbatim>\<open>for (let col = range.s.c; col <= range.e.c; col++)\<close>.\<close>

function extract_headers :: "sheet \<Rightarrow> int \<Rightarrow> int \<Rightarrow> int \<Rightarrow> cell list" where
  "extract_headers ws r col ec =
     (if col \<le> ec then
        (case cells ws (r, col) of
           Some v \<Rightarrow> v
         | None \<Rightarrow> Str (''Column '' @ int_string (col + 1)))
        # extract_headers ws r (col + 1) ec
      else [])"
  by pat_completeness auto
termination
  by (relation "measure (\<lambda>(ws, r, col, ec). nat (ec + 1 - col))") auto

declare extract_headers.simps [simp del]

definition summarize_sheet :: "string \<Rightarrow> sheet \<Rightarrow> worksheet_summary" where
  "summarize_sheet sheetName ws =
     (let range = decoded_range ws;
          headers = extract_headers ws (s_r range) (s_c range) (e_c range)
      in \<lparr> name = sheetName,
           rowCount = e_r range - s_r range + 1,
           columnCount = e_c range - s_c range + 1,
           columns = headers \<rparr>)"

text \<open>
  \<^verbatim>\<open>workbook.SheetNames.forEach\<close>: a name without a sheet object makes the read of
  \<^verbatim>\<open>worksheet['!ref']\<close> throw, which ends the loop with the error's message.
\<close>

fun summarize_sheets :: "workbook \<Rightarrow> string list \<Rightarrow> string + worksheet_summary list" where
  "summarize_sheets wb [] = Inr []"
| "summarize_sheets wb (sheetName # rest) =
     (case Sheets wb sheetName of
        None \<Rightarrow> Inl ''Cannot read properties of undefined''
      | Some ws \<Rightarrow>
          (case summarize_sheets wb rest of
             Inl msg \<Rightarrow> Inl msg
           | Inr done \<Rightarrow> Inr (summarize_sheet sheetName ws # done)))"

text \<open>The record \<^verbatim>\<open>new File({...})\<close> of an upload, before the workbook is processed.\<close>

definition new_file :: "string \<Rightarrow> string \<Rightarrow> bool \<Rightarrow> file_record" where
  "new_file path owner public =
     \<lparr> filePath = path, uploadedBy = owner, isPublic = public, status = processing,
       processingError = None, worksheets = [], metadata = None \<rparr>"

text \<open>
  The processing block of the upload route. \<open>readFile\<close> is the outcome of
  \<^verbatim>\<open>XLSX.readFile(req.file.path)\<close>: the message of the error thrown, or the workbook.
\<close>

definition process_upload :: "nat \<Rightarrow> string + workbook \<Rightarrow> file_record \<Rightarrow> file_record" where
  "process_upload now readFile fileRecord =
     (case readFile of
        Inl msg \<Rightarrow> fileRecord \<lparr> status := error, processingError := Some msg \<rparr>
      | Inr wb \<Rightarrow>
          (case summarize_sheets wb (SheetNames wb) of
             Inl msg \<Rightarrow> fileRecord \<lparr> status := error, processingError := Some msg \<rparr>
           | Inr sheets \<Rightarrow>
               fileRecord
                 \<lparr> status := completed,
                   worksheets := sheets,
                   metadata := Some
                     \<lparr> totalRows = foldl (\<lambda>sum ws. sum + rowCount ws) 0 sheets,
                       totalColumns = math_max (map (\<lambda>ws. Fin (real_of_int (columnCount ws))) sheets),
                       worksheetCount = length sheets,
                       createdDate = now,
                       modifiedDate = now \<rparr> \<rparr>))"

section \<open>Worksheet Data Reader\<close>

record caller =
  userId :: string
  role :: string


text \<open>
  \<^verbatim>\<open>XLSX.utils.sheet_to_json\<close> is a parameter \<open>to_json\<close>; on a missing sheet object the
  library returns no rows.
\<close>

definition sheet_rows :: "(sheet \<Rightarrow> row list) \<Rightarrow> workbook \<Rightarrow> string \<Rightarrow> row list" where
  "sheet_rows to_json wb sheetName =
     (case Sheets wb sheetName of None \<Rightarrow> [] | Some ws \<Rightarrow> to_json ws)"

definition may_read :: "caller \<Rightarrow> file_record \<Rightarrow> bool" where
  "may_read user file = (\<not> (uploadedBy file \<noteq> userId user \<and> \<not> isPublic file \<and> role user \<noteq> ''admin''))"


section \<open>Analytics records\<close>

record chart_config =
  cfg_xAxis :: axis
  cfg_yAxis :: axis
  cfg_zAxis :: "axis option"
  cfg_title :: string
  cfg_colors :: "string list"

record share_settings =
  isPublic_s :: bool
  sharedWith :: "(string \<times> string) list"

text \<open>
  The analytics document; a suffix or prefix marks a field whose name is also the name of
  something else here (\<open>userId_a\<close> is \<^verbatim>\<open>userId\<close>, \<open>cfg_title\<close> is \<^verbatim>\<open>chartConfig.title\<close>). The bookkeeping fields the store adds by itself (identifier,
  timestamps, version) are not part of the record.
\<close>

record analytics =
  fileId :: string
  userId_a :: string
  chartType_a :: string
  chartConfig :: chart_config
  chartData :: chart_data
  insights_a :: insights
  isBookmarked :: bool
  shareSettings :: share_settings
  viewCount :: nat
  downloadCount :: nat

definition chart_types :: "string list" where
  "chart_types = [''line'', ''bar'', ''pie'', ''doughnut'', ''scatter'', ''area'',
                  ''3d-bar'', ''3d-scatter'', ''3d-surface'']"

section \<open>Chart creation\<close>

record chart_request =
  req_fileId :: string
  req_chartType :: string
  req_xAxis :: axis
  req_yAxis :: axis
  req_zAxis :: "axis option"
  req_title :: "string option"
  req_colors :: "string list option"
  req_worksheetName :: "string option"

text \<open>
  \<^verbatim>\<open>worksheetName || workbook.SheetNames[0]\<close>, as the property name used to index
  \<^verbatim>\<open>workbook.Sheets\<close>: without a name and without a first sheet the index is
  \<^verbatim>\<open>undefined\<close>, whose property name is the string of that word.
\<close>

definition chosen_sheet :: "string option \<Rightarrow> workbook \<Rightarrow> string" where
  "chosen_sheet requested wb =
     (let first = (case SheetNames wb of [] \<Rightarrow> ''undefined'' | n # rest \<Rightarrow> n)
      in case requested of
           None \<Rightarrow> first
         | Some n \<Rightarrow> if n \<noteq> [] then n else first)"

definition z_column :: "axis option \<Rightarrow> string" where
  "z_column za = (case za of None \<Rightarrow> [] | Some z \<Rightarrow> column z)"

text \<open>\<^verbatim>\<open>zAxis && zAxis.column && !columns.includes(zAxis.column)\<close>\<close>

definition z_missing :: "axis option \<Rightarrow> string list \<Rightarrow> bool" where
  "z_missing za cols =
     (case za of None \<Rightarrow> False | Some z \<Rightarrow> column z \<noteq> [] \<and> column z \<notin> set cols)"

text \<open>
  The route \<^verbatim>\<open>POST /api/analytics/create\<close>, with \<open>found\<close> and \<open>readFile\<close> as above. The result
  is the error response or the analytics document that is saved; saving validates the chart
  type against the schema's enumeration, and a failed validation is caught as any other
  exception.
\<close>

definition create_chart ::
  "(real \<Rightarrow> string) \<Rightarrow> (string \<Rightarrow> string + workbook) \<Rightarrow> (sheet \<Rightarrow> row list) \<Rightarrow> caller \<Rightarrow>
     file_record option \<Rightarrow> chart_request \<Rightarrow> (nat \<times> string) + analytics" where
  "create_chart nts readFile to_json user found req =
     (case found of
        None \<Rightarrow> Inl (404, ''File not found'')
      | Some file \<Rightarrow>
          if \<not> may_read user file then Inl (403, ''Access denied to file'')
          else if status file \<noteq> completed then Inl (400, ''File is not processed yet'')
          else
            (case readFile (filePath file) of
               Inl msg \<Rightarrow> Inl (500, ''Error creating analytics'')
             | Inr wb \<Rightarrow>
                 let sheetName = chosen_sheet (req_worksheetName req) wb;
                     data = sheet_rows to_json wb sheetName
                 in (case data of
                      [] \<Rightarrow> Inl (400, ''No data found in worksheet'')
                    | first # rest \<Rightarrow>
                      let cols = object_keys first
                      in if column (req_xAxis req) \<notin> set cols
                         then Inl (400, ''Column '' @ column (req_xAxis req) @ '' not found'')
                         else if column (req_yAxis req) \<notin> set cols
                         then Inl (400, ''Column '' @ column (req_yAxis req) @ '' not found'')
                         else if z_missing (req_zAxis req) cols
                         then Inl (400, ''Column '' @ z_column (req_zAxis req) @ '' not found'')
                         else
                           let chart = processChartData nts data (req_chartType req)
                                 (req_xAxis req) (req_yAxis req) (req_zAxis req) (req_colors req);
                               found_insights = generateInsights nts data
                                 (req_xAxis req) (req_yAxis req) (req_zAxis req)
                           in if req_chartType req \<notin> set chart_types
                              then Inl (500, ''Error creating analytics'')
                              else Inr
                                \<lparr> fileId = req_fileId req,
                                  userId_a = userId user,
                                  chartType_a = req_chartType req,
                                  chartConfig =
                                    \<lparr> cfg_xAxis = req_xAxis req,
                                      cfg_yAxis = req_yAxis req,
                                      cfg_zAxis = req_zAxis req,
                                      cfg_title = (case req_title req of
                                                 Some t \<Rightarrow> if t \<noteq> [] then t
                                                           else req_chartType req @ '' Chart''
                                               | None \<Rightarrow> req_chartType req @ '' Chart''),
                                      cfg_colors = (case req_colors req of
                                                  Some cs \<Rightarrow> cs
                                                | None \<Rightarrow> [''#3498db'', ''#e74c3c'', ''#2ecc71'',
                                                           ''#f39c12'', ''#9b59b6'']) \<rparr>,
                                  chartData = chart,
                                  insights_a = found_insights,
                                  isBookmarked = False,
                                  shareSettings = \<lparr> isPublic_s = False, sharedWith = [] \<rparr>,
                                  viewCount = 0,
                                  downloadCount = 0 \<rparr>)))"

section \<open>Reading, updating and deleting analytics\<close>

text \<open>
  The store maps identifiers to documents. Each route returns its response and the store
  it leaves. \<open>owner_exists\<close> tells whether \<^verbatim>\<open>populate('userId')\<close> finds the owner: if not,
  the access check dereferences \<^verbatim>\<open>null\<close> and the route answers 500.
\<close>

type_synonym store = "string \<Rightarrow> analytics option"

definition get_analytics ::
  "(string \<Rightarrow> bool) \<Rightarrow> caller \<Rightarrow> store \<Rightarrow> string \<Rightarrow> ((nat \<times> string) + analytics) \<times> store" where
  "get_analytics owner_exists user db ident =
     (case db ident of
        None \<Rightarrow> (Inl (404, ''Analytics not found''), db)
      | Some a \<Rightarrow>
          if \<not> owner_exists (userId_a a) then (Inl (500, ''Error fetching analytics''), db)
          else if userId_a a \<noteq> userId user \<and> \<not> isPublic_s (shareSettings a) \<and>
                  role user \<noteq> ''admin''
          then (Inl (403, ''Access denied''), db)
          else
            let a' = a \<lparr> viewCount := viewCount a + 1 \<rparr>
            in (Inr a', db (ident \<mapsto> a')))"

text \<open>The body of an update request; an absent field is \<open>None\<close>.\<close>

record share_patch =
  isPublic_p :: "bool option"
  sharedWith_p :: "(string \<times> string) list option"

record update_body =
  title_u :: "string option"
  colors_u :: "string list option"
  isBookmarked_u :: "bool option"
  shareSettings_u :: "share_patch option"

text \<open>\<^verbatim>\<open>{ ...analytics.shareSettings, ...shareSettings }\<close>\<close>

definition merge_share :: "share_settings \<Rightarrow> share_patch \<Rightarrow> share_settings" where
  "merge_share old patch =
     \<lparr> isPublic_s = (case isPublic_p patch of Some b \<Rightarrow> b | None \<Rightarrow> isPublic_s old),
       sharedWith = (case sharedWith_p patch of Some l \<Rightarrow> l | None \<Rightarrow> sharedWith old) \<rparr>"

definition put_analytics ::
  "caller \<Rightarrow> store \<Rightarrow> string \<Rightarrow> update_body \<Rightarrow> ((nat \<times> string) + analytics) \<times> store" where
  "put_analytics user db ident body =
     (case db ident of
        None \<Rightarrow> (Inl (404, ''Analytics not found''), db)
      | Some a \<Rightarrow>
          if userId_a a \<noteq> userId user \<and> role user \<noteq> ''admin''
          then (Inl (403, ''Access denied''), db)
          else
            let a1 = (case title_u body of
                        Some t \<Rightarrow> if t \<noteq> [] then a \<lparr> chartConfig := (chartConfig a) \<lparr> cfg_title := t \<rparr> \<rparr>
                                  else a
                      | None \<Rightarrow> a);
                a2 = (case colors_u body of
                        Some cs \<Rightarrow> a1 \<lparr> chartConfig := (chartConfig a1) \<lparr> cfg_colors := cs \<rparr> \<rparr>
                      | None \<Rightarrow> a1);
                a3 = (case isBookmarked_u body of
                        Some b \<Rightarrow> a2 \<lparr> isBookmarked := b \<rparr>
                      | None \<Rightarrow> a2);
                a4 = (case shareSettings_u body of
                        Some patch \<Rightarrow> a3 \<lparr> shareSettings := merge_share (shareSettings a3) patch \<rparr>
                      | None \<Rightarrow> a3)
            in (Inr a4, db (ident \<mapsto> a4)))"

definition delete_analytics ::
  "caller \<Rightarrow> store \<Rightarrow> string \<Rightarrow> ((nat \<times> string) + unit) \<times> store" where
  "delete_analytics user db ident =
     (case db ident of
        None \<Rightarrow> (Inl (404, ''Analytics not found''), db)
      | Some a \<Rightarrow>
          if userId_a a \<noteq> userId user \<and> role user \<noteq> ''admin''
          then (Inl (403, ''Access denied''), db)
          else (Inr (), db (ident := None)))"

text \<open>A request to one of the three routes, and the store after a sequence of requests.\<close>

datatype request =
    Get caller string
  | Put caller string update_body
  | Delete caller string

fun serve :: "(string \<Rightarrow> bool) \<Rightarrow> store \<Rightarrow> request \<Rightarrow> store" where
  "serve owner_exists db (Get user ident) = snd (get_analytics owner_exists user db ident)"
| "serve owner_exists db (Put user ident body) = snd (put_analytics user db ident body)"
| "serve owner_exists db (Delete user ident) = snd (delete_analytics user db ident)"

definition serve_all :: "(string \<Rightarrow> bool) \<Rightarrow> store \<Rightarrow> request list \<Rightarrow> store" where
  "serve_all owner_exists db reqs = foldl (serve owner_exists) db reqs"

section \<open>Vocabulary of the properties\<close>

text \<open>The coerced Y-value of a row, and the Y-values of a record list as reals.\<close>

definition y_value :: "axis \<Rightarrow> row \<Rightarrow> jsnum" where
  "y_value yAxis row = num_or_zero (row_get row (column yAxis))"

fun is_fin :: "jsnum \<Rightarrow> bool" where
  "is_fin (Fin a) = True"
| "is_fin _ = False"

fun the_real :: "jsnum \<Rightarrow> real" where
  "the_real (Fin a) = a"
| "the_real _ = 0"

definition y_reals :: "axis \<Rightarrow> row list \<Rightarrow> real list" where
  "y_reals yAxis data = map (\<lambda>row. the_real (y_value yAxis row)) data"

definition finite_ys :: "axis \<Rightarrow> row list \<Rightarrow> bool" where
  "finite_ys yAxis data = list_all (\<lambda>row. is_fin (y_value yAxis row)) data"

text \<open>Mean, population standard deviation, and deviation by more than two of them.\<close>

definition mean_of :: "real list \<Rightarrow> real" where
  "mean_of rs = sum_list rs / real (length rs)"




text \<open>The means of the two halves of a sequence split at \<open>\<lfloor>n / 2\<rfloor>\<close>.\<close>

definition first_mean :: "real list \<Rightarrow> real" where
  "first_mean rs = mean_of (take (length rs div 2) rs)"

definition second_mean :: "real list \<Rightarrow> real" where
  "second_mean rs = mean_of (drop (length rs div 2) rs)"

text \<open>The parts of a series entry.\<close>

fun is_point :: "datum \<Rightarrow> bool" where
  "is_point (Point x y z) = True"
| "is_point _ = False"

fun point_x :: "datum \<Rightarrow> jsnum" where
  "point_x (Point x y z) = x"
| "point_x _ = NaN"

fun point_y :: "datum \<Rightarrow> jsnum" where
  "point_y (Point x y z) = y"
| "point_y _ = NaN"

fun point_z :: "datum \<Rightarrow> jsnum" where
  "point_z (Point x y z) = z"
| "point_z _ = NaN"








text \<open>
  The fields of an analytics document outside its title, colors, bookmark flag, share
  settings and view counter.
\<close>

definition fixed_part ::
  "analytics \<Rightarrow> string \<times> string \<times> string \<times> axis \<times> axis \<times> axis option \<times> chart_data \<times> insights \<times> nat" where
  "fixed_part a =
     (fileId a, userId_a a, chartType_a a, cfg_xAxis (chartConfig a), cfg_yAxis (chartConfig a),
      cfg_zAxis (chartConfig a), chartData a, insights_a a, downloadCount a)"

text \<open>Rows with an X and a Y column, for the examples.\<close>

definition xy_rows :: "(cell \<times> cell) list \<Rightarrow> row list" where
  "xy_rows ps = map (\<lambda>(x, y). [(''X'', x), (''Y'', y)]) ps"

definition x_axis :: axis where
  "x_axis = \<lparr> column = ''X'', label = ''X'' \<rparr>"

definition y_axis :: axis where
  "y_axis = \<lparr> column = ''Y'', label = ''Y'' \<rparr>"

text \<open>
  A workbook with the sheets Sales and Notes, the conversion of its sheets to rows (Sales
  has two, Notes none), a completed file of user u1, and a request for a bar chart.
\<close>

definition two_sheets :: workbook where
  "two_sheets =
     \<lparr> SheetNames = [''Sales'', ''Notes''],
       Sheets = [''Sales'' \<mapsto> \<lparr> ref = Some \<lparr> s_r = 0, s_c = 0, e_r = 2, e_c = 1 \<rparr>,
                               cells = (\<lambda>a. None) \<rparr>,
                 ''Notes'' \<mapsto> \<lparr> ref = None, cells = (\<lambda>a. None) \<rparr>] \<rparr>"

definition rows_of :: "sheet \<Rightarrow> row list" where
  "rows_of ws =
     (if ref ws = None then []
      else xy_rows [(Str ''East'', Num 100), (Str ''West'', Num 200)])"

definition ready_file :: file_record where
  "ready_file = (new_file ''uploads/a.xlsx'' ''u1'' False) \<lparr> status := completed \<rparr>"

definition user1 :: caller where
  "user1 = \<lparr> userId = ''u1'', role = ''user'' \<rparr>"

definition bar_request :: chart_request where
  "bar_request =
     \<lparr> req_fileId = ''f1'', req_chartType = ''bar'', req_xAxis = x_axis, req_yAxis = y_axis,
       req_zAxis = None, req_title = None, req_colors = None, req_worksheetName = None \<rparr>"

text \<open>A stored analytics document, for the examples.\<close>

definition stored :: analytics where
  "stored =
     \<lparr> fileId = ''f1'', userId_a = ''u1'', chartType_a = ''bar'',
       chartConfig = \<lparr> cfg_xAxis = x_axis, cfg_yAxis = y_axis, cfg_zAxis = None,
                       cfg_title = ''bar Chart'', cfg_colors = [''#3498db''] \<rparr>,
       chartData = \<lparr> labels = [Str ''East''], datasets = [] \<rparr>,
       insights_a = \<lparr> summary = [], trends = [], correlations = [], outliers = [],
                      aiGenerated = False \<rparr>,
       isBookmarked = False,
       shareSettings = \<lparr> isPublic_s = False, sharedWith = [] \<rparr>,
       viewCount = 3,
       downloadCount = 0 \<rparr>"

section \<open>Arithmetic on finite numbers\<close>

lemma Fin_the_real: "is_fin v \<Longrightarrow> Fin (the_real v) = v"
  by (cases v) auto


lemma foldl_js_add_Fin:
  "foldl (\<lambda>sum val. js_add sum val) (Fin a) (map Fin rs) = Fin (a + sum_list rs)"
  by (induction rs arbitrary: a) (simp_all add: add.assoc)

lemma average_Fin:
  "rs \<noteq> [] \<Longrightarrow> average (map Fin rs) = Fin (mean_of rs)"
  by (simp add: average_def foldl_js_add_Fin mean_of_def)





section \<open>Insight Generator: outliers\<close>




















section \<open>Insight Generator: trend\<close>

lemma trends_unfold:
  "trends (generateInsights nts data xAxis yAxis zAxis) =
     (let yValues = map (\<lambda>row. num_or_zero (row_get row (column yAxis))) data
      in if length yValues > 1 then
               let firstAvg = average (take (length yValues div 2) yValues);
                   secondAvg = average (drop (length yValues div 2) yValues)
               in if js_gt secondAvg (js_mul firstAvg (Fin (11 / 10)))
                  then [''Upward trend detected in the data'']
                  else if js_lt secondAvg (js_mul firstAvg (Fin (9 / 10)))
                  then [''Downward trend detected in the data'']
                  else [''Relatively stable trend in the data'']
             else [])"
  by (simp add: generateInsights_def Let_def)

lemma trends_finite:
  assumes fin_ys: "finite_ys yAxis data"
    and rs: "rs = y_reals yAxis data"
  shows "trends (generateInsights nts data xAxis yAxis zAxis) =
     (if length data > 1 then
        if second_mean rs > first_mean rs * (11 / 10) then [''Upward trend detected in the data'']
        else if second_mean rs < first_mean rs * (9 / 10) then [''Downward trend detected in the data'']
        else [''Relatively stable trend in the data'']
      else [])"
proof (cases "length data > 1")
  case False
  then show ?thesis by (simp add: trends_unfold)
next
  case True
  have fin: "\<forall>row \<in> set data. is_fin (y_value yAxis row)"
    using fin_ys by (simp add: finite_ys_def list_all_iff)
  define yv where "yv = map (\<lambda>row. num_or_zero (row_get row (column yAxis))) data"
  have ys: "yv = map Fin rs"
    using fin by (simp add: yv_def rs y_reals_def y_value_def Fin_the_real)
  have len: "length yv = length rs" "length rs = length data"
    by (simp_all add: ys rs y_reals_def)
  have t: "take (length rs div 2) rs \<noteq> []" and d: "drop (length rs div 2) rs \<noteq> []"
    using True len by auto
  have "take (length yv div 2) yv = map Fin (take (length rs div 2) rs)"
    by (simp add: ys take_map)
  then have a1: "average (take (length yv div 2) yv) = Fin (first_mean rs)"
    using average_Fin[OF t] by (simp add: first_mean_def)
  have "drop (length yv div 2) yv = map Fin (drop (length rs div 2) rs)"
    by (simp add: ys drop_map)
  then have a2: "average (drop (length yv div 2) yv) = Fin (second_mean rs)"
    using average_Fin[OF d] by (simp add: second_mean_def)
  have "trends (generateInsights nts data xAxis yAxis zAxis) =
      (if js_gt (average (drop (length yv div 2) yv)) (js_mul (average (take (length yv div 2) yv)) (Fin (11 / 10)))
                  then [''Upward trend detected in the data'']
                  else if js_lt (average (drop (length yv div 2) yv)) (js_mul (average (take (length yv div 2) yv)) (Fin (9 / 10)))
                  then [''Downward trend detected in the data'']
                  else [''Relatively stable trend in the data''])"
    using True unfolding trends_unfold Let_def yv_def by simp
  also have "\<dots> = (if second_mean rs > first_mean rs * (11 / 10) then [''Upward trend detected in the data'']
        else if second_mean rs < first_mean rs * (9 / 10) then [''Downward trend detected in the data'']
        else [''Relatively stable trend in the data''])"
    unfolding a1 a2 by (simp add: js_lt_def)
  finally show ?thesis using True by simp
qed






text \<open>
  The thresholds are multiples of the first mean, so with a negative first mean the upward
  test holds for a constant sequence: for the Y-values \<open>[-10,-10]\<close> the second mean \<open>-10\<close> is
  more than \<open>-11\<close>.
\<close>

lemma constant_negative_trend:
  "trends (generateInsights integer_string (xy_rows [(Str ''a'', Num (- 10)), (Str ''b'', Num (- 10))])
        x_axis y_axis None) = [''Upward trend detected in the data'']"
proof -
  let ?d = "xy_rows [(Str ''a'', Num (- 10)), (Str ''b'', Num (- 10))]"
  have fin: "finite_ys y_axis ?d"
    by (simp add: finite_ys_def xy_rows_def y_value_def y_axis_def row_get_def num_or_zero_def
        js_or_def)
  have ys: "y_reals y_axis ?d = [- 10, - 10]"
    by (simp add: xy_rows_def y_reals_def y_value_def y_axis_def row_get_def num_or_zero_def js_or_def)
  have len: "length ?d = 2" by (simp add: xy_rows_def)
  have means: "first_mean [- 10, - 10] = - 10" "second_mean [- 10, - 10] = - 10"
    by (simp_all add: first_mean_def second_mean_def mean_of_def)
  show ?thesis
    unfolding trends_finite[OF fin ys[symmetric]] len by (simp add: means)
qed

section \<open>Chart Data Transformer: default and three-dimensional series\<close>

lemma processChartData_not_proportional:
  assumes "chartType \<noteq> ''pie''" and "chartType \<noteq> ''doughnut''"
  shows "processChartData nts data chartType xAxis yAxis zAxis colors =
     \<lparr> labels = map (\<lambda>row. row_get row (column xAxis)) data,
       datasets =
         [\<lparr> label_ds = (if label yAxis \<noteq> [] then label yAxis else column yAxis),
            data_ds =
              (if has_z zAxis then
                 map (\<lambda>index. Point (js_or (parseFloat (row_get (data ! index) (column xAxis)))
                                           (Fin (real index)))
                                     (num_or_zero (row_get (data ! index) (column yAxis)))
                                     (num_or_zero (row_get (data ! index) (z_column zAxis))))
                     [0 ..< length data]
               else map (\<lambda>row. Number (num_or_zero (row_get row (column yAxis)))) data),
            backgroundColor = (case colors of Some cs \<Rightarrow> cs | None \<Rightarrow> [''#3498db'']),
            borderColor = (case colors of
                             Some (c # cs) \<Rightarrow> if c \<noteq> [] then c else ''#3498db''
                           | _ \<Rightarrow> ''#3498db''),
            borderWidth = 2 \<rparr>] \<rparr>"
  using assms
  by (cases zAxis) (simp_all add: processChartData_def Let_def has_z_def z_column_def o_def)

lemma num_or_zero_examples:
  "num_or_zero (Str ''abc'') = Fin 0" "num_or_zero Null = Fin 0" "num_or_zero Undefined = Fin 0"
  "num_or_zero (Num r) = Fin r" "num_or_zero (Str ''12.5'') = Fin (25 / 2)"
  by (simp_all add: num_or_zero_def js_or_def parse_float_string_def unsigned_literal_def
      is_space_def is_digit_def digits_value_def exponent_part_def pow10_def)




text \<open>
  Claim C5, as amended. For every record list and every chart type other than pie and
  doughnut, when a Z-axis selection with a column name is present, the single series has one
  entry per record, in record order, and the entry of record \<open>i\<close> is a point whose \<open>y\<close> and \<open>z\<close>
  are the Y and Z values coerced with \<^verbatim>\<open>parseFloat(v) || 0\<close>, and whose \<open>x\<close> is the position \<open>i\<close>
  when the X value is not numeric and the parsed X value when that is a number other than
  zero.
\<close>

theorem processChartData_points:
  assumes "chartType \<noteq> ''pie''" and "chartType \<noteq> ''doughnut''"
    and "zAxis = Some z" and "column z \<noteq> []" and "i < length data"
  shows "length (datasets (processChartData nts data chartType xAxis yAxis zAxis colors)) = 1
       \<and> length (data_ds (hd (datasets (processChartData nts data chartType xAxis yAxis zAxis colors))))
           = length data
       \<and> is_point (data_ds (hd (datasets (processChartData nts data chartType xAxis yAxis zAxis colors))) ! i)
       \<and> point_y (data_ds (hd (datasets (processChartData nts data chartType xAxis yAxis zAxis colors))) ! i)
           = num_or_zero (row_get (data ! i) (column yAxis))
       \<and> point_z (data_ds (hd (datasets (processChartData nts data chartType xAxis yAxis zAxis colors))) ! i)
           = num_or_zero (row_get (data ! i) (column z))
       \<and> (parseFloat (row_get (data ! i) (column xAxis)) = NaN \<longrightarrow>
           point_x (data_ds (hd (datasets (processChartData nts data chartType xAxis yAxis zAxis colors))) ! i)
             = Fin (real i))
       \<and> (js_truthy (parseFloat (row_get (data ! i) (column xAxis))) \<longrightarrow>
           point_x (data_ds (hd (datasets (processChartData nts data chartType xAxis yAxis zAxis colors))) ! i)
             = parseFloat (row_get (data ! i) (column xAxis)))"
  unfolding processChartData_not_proportional[OF assms(1,2)]
  using assms(3-5)
  by (simp add: has_z_def z_column_def js_or_def)

text \<open>The theorem at the second record of a 3d-bar chart.\<close>

theorem processChartData_points_witness:
  "''3d-bar'' \<noteq> ''pie'' \<and> ''3d-bar'' \<noteq> ''doughnut'' \<and> column y_axis \<noteq> []
   \<and> (1::nat) < length (xy_rows [(Str ''East'', Num 100), (Num 7, Str ''abc'')])
   \<and> data_ds (hd (datasets (processChartData integer_string
        (xy_rows [(Str ''East'', Num 100), (Num 7, Str ''abc'')])
        ''3d-bar'' x_axis y_axis (Some y_axis) None))) ! 1 = Point (Fin 7) (Fin 0) (Fin 0)"
proof -
  let ?d = "xy_rows [(Str ''East'', Num 100), (Num 7, Str ''abc'')]"
  let ?p = "data_ds (hd (datasets (processChartData integer_string ?d
        ''3d-bar'' x_axis y_axis (Some y_axis) None))) ! 1"
  have a: "''3d-bar'' \<noteq> ''pie''" "''3d-bar'' \<noteq> ''doughnut''" "Some y_axis = Some y_axis"
    "column y_axis \<noteq> []" "(1::nat) < length ?d"
    by (simp_all add: y_axis_def xy_rows_def)
  have row: "row_get (?d ! 1) (column x_axis) = Num 7" "row_get (?d ! 1) (column y_axis) = Str ''abc''"
    by (simp_all add: xy_rows_def x_axis_def y_axis_def row_get_def)
  from processChartData_points[OF a, of integer_string x_axis y_axis None]
  have "is_point ?p" "point_y ?p = Fin 0" "point_z ?p = Fin 0" "point_x ?p = Fin 7"
    unfolding row by (simp_all add: num_or_zero_examples)
  then have "?p = Point (Fin 7) (Fin 0) (Fin 0)"
    by (cases ?p) simp_all
  then show ?thesis using a by blast
qed

text \<open>
  Claim C5 as stated fails: for the chart type pie the aggregation replaces the points, so
  with a Z-axis selection present the series holds the sums per group.
\<close>

theorem proportional_points_counterexample:
  "has_z (Some y_axis)
   \<and> data_ds (hd (datasets (processChartData integer_string
        (xy_rows [(Str ''East'', Num 100), (Str ''West'', Num 200)])
        ''pie'' x_axis y_axis (Some y_axis) None))) = [Number (Fin 100), Number (Fin 200)]"
  by (simp add: processChartData_def xy_rows_def x_axis_def y_axis_def aggregate_step_def
      row_get_def inherited_names_def num_or_zero_def js_or_def object_values_def own_entries_def
      is_array_index_def is_digit_def has_z_def)

text \<open>
  An X value that parses to zero is treated like a value that is not numeric: the second
  record below has the X value 0 and gets its position 1.
\<close>

lemma zero_x_takes_index:
  "data_ds (hd (datasets (processChartData integer_string
        (xy_rows [(Num 5, Num 100), (Num 0, Num 200)])
        ''3d-bar'' x_axis y_axis (Some y_axis) None))) =
     [Point (Fin 5) (Fin 100) (Fin 100), Point (Fin 1) (Fin 200) (Fin 200)]"
  by (simp add: processChartData_def xy_rows_def x_axis_def y_axis_def
      row_get_def num_or_zero_def js_or_def upt_rec)


section \<open>Chart Data Transformer: proportional charts\<close>
































section \<open>Workbook Parser\<close>





text \<open>A sheet of four rows and three columns whose second header cell is empty.\<close>

lemma summarize_sheet_example:
  "summarize_sheet ''Sales''
     \<lparr> ref = Some \<lparr> s_r = 0, s_c = 0, e_r = 3, e_c = 2 \<rparr>,
       cells = [(0, 0) \<mapsto> Str ''Region'', (0, 2) \<mapsto> Str ''Revenue''] \<rparr>
   = \<lparr> name = ''Sales'', rowCount = 4, columnCount = 3,
       columns = [Str ''Region'', Str ''Column 2'', Str ''Revenue''] \<rparr>"
  by (simp add: summarize_sheet_def decoded_range_def extract_headers.simps int_string_def
      nat_string.simps)

section \<open>Ingestion\<close>

lemma summarize_sheets_length:
  "summarize_sheets wb names = Inr sheets \<Longrightarrow> length sheets = length names"
  by (induction names arbitrary: sheets) (auto split: option.splits sum.splits)

text \<open>
  Claim C3, as amended. After the processing of an upload the file is in exactly one of the
  states completed and error. It is completed if and only if its metadata is populated, and
  then its worksheets list has one summary per sheet of the workbook; a non-empty worksheets
  list implies completed. It is in error if and only if an error message is recorded and the
  worksheets list is empty.
\<close>

theorem process_upload_status:
  "(status (process_upload now readFile (new_file path owner public)) = completed \<or>
    status (process_upload now readFile (new_file path owner public)) = error)
   \<and> (status (process_upload now readFile (new_file path owner public)) = completed \<longleftrightarrow>
        metadata (process_upload now readFile (new_file path owner public)) \<noteq> None)
   \<and> (worksheets (process_upload now readFile (new_file path owner public)) \<noteq> [] \<longrightarrow>
        status (process_upload now readFile (new_file path owner public)) = completed)
   \<and> (status (process_upload now readFile (new_file path owner public)) = completed \<longrightarrow>
        (case readFile of
           Inl msg \<Rightarrow> False
         | Inr wb \<Rightarrow> length (worksheets (process_upload now readFile (new_file path owner public)))
                      = length (SheetNames wb)))
   \<and> (status (process_upload now readFile (new_file path owner public)) = error \<longleftrightarrow>
        processingError (process_upload now readFile (new_file path owner public)) \<noteq> None \<and>
        worksheets (process_upload now readFile (new_file path owner public)) = [])"
  by (auto simp: process_upload_def new_file_def split: sum.splits dest: summarize_sheets_length)

text \<open>The theorem at a workbook of one sheet.\<close>

theorem process_upload_status_witness:
  "status (process_upload 0
      (Inr \<lparr> SheetNames = [''Sheet1''],
             Sheets = [''Sheet1'' \<mapsto> \<lparr> ref = None, cells = (\<lambda>a. None) \<rparr>] \<rparr>)
      (new_file ''uploads/a.xlsx'' ''u1'' False)) = completed
   \<and> length (worksheets (process_upload 0
      (Inr \<lparr> SheetNames = [''Sheet1''],
             Sheets = [''Sheet1'' \<mapsto> \<lparr> ref = None, cells = (\<lambda>a. None) \<rparr>] \<rparr>)
      (new_file ''uploads/a.xlsx'' ''u1'' False))) = 1"
proof -
  let ?rf = "Inr \<lparr> SheetNames = [''Sheet1''],
             Sheets = [''Sheet1'' \<mapsto> \<lparr> ref = None, cells = (\<lambda>a. None) \<rparr>] \<rparr>"
  have m: "metadata (process_upload 0 ?rf (new_file ''uploads/a.xlsx'' ''u1'' False)) \<noteq> None"
    by (simp add: process_upload_def new_file_def)
  from process_upload_status[of 0 ?rf "''uploads/a.xlsx''" "''u1''" False] m show ?thesis
    by simp
qed

text \<open>
  Claim C3 as stated fails: a workbook without sheets is processed without error, and the
  file is completed with an empty worksheets list.
\<close>

theorem no_sheets_counterexample:
  "status (process_upload 0 (Inr \<lparr> SheetNames = [], Sheets = (\<lambda>n. None) \<rparr>)
      (new_file ''uploads/a.xlsx'' ''u1'' False)) = completed
   \<and> worksheets (process_upload 0 (Inr \<lparr> SheetNames = [], Sheets = (\<lambda>n. None) \<rparr>)
      (new_file ''uploads/a.xlsx'' ''u1'' False)) = []"
  by (simp add: process_upload_def new_file_def)


section \<open>Worksheet Data Reader\<close>



lemma object_keys_empty: "object_keys [] = []"
  by (simp add: object_keys_def own_entries_def)




section \<open>Chart creation without a worksheet name\<close>

lemma chosen_sheet_default:
  "SheetNames wb = first # others \<Longrightarrow>
   chosen_sheet None wb = first \<and> chosen_sheet (Some []) wb = first \<and>
   chosen_sheet (Some first) wb = first"
  by (simp add: chosen_sheet_def)

text \<open>
  Claim C10. When the workbook of the file is read and has a first sheet, a request without
  worksheet name, or with the empty name, is answered exactly as the request that names the
  first sheet: the missing name is no failure of its own. When moreover the checks of the
  route pass (access, completed status, rows in the first sheet, the selected columns among
  the keys of its first record, a chart type of the schema), the route succeeds and the chart
  data and the insights of the document are those of the first sheet's records.
\<close>

theorem create_chart_first_sheet:
  assumes "readFile (filePath file) = Inr wb" and "SheetNames wb = first # others"
  shows "create_chart nts readFile to_json user (Some file) (req \<lparr> req_worksheetName := None \<rparr>) =
         create_chart nts readFile to_json user (Some file) (req \<lparr> req_worksheetName := Some first \<rparr>)
       \<and> create_chart nts readFile to_json user (Some file) (req \<lparr> req_worksheetName := Some [] \<rparr>) =
         create_chart nts readFile to_json user (Some file) (req \<lparr> req_worksheetName := Some first \<rparr>)
       \<and> (may_read user file \<and> status file = completed \<and> Sheets wb first = Some ws \<and>
          to_json ws = r # rs \<and>
          column (req_xAxis req) \<in> set (object_keys r) \<and>
          column (req_yAxis req) \<in> set (object_keys r) \<and>
          \<not> z_missing (req_zAxis req) (object_keys r) \<and>
          req_chartType req \<in> set chart_types \<longrightarrow>
          (case create_chart nts readFile to_json user (Some file) (req \<lparr> req_worksheetName := None \<rparr>) of
             Inl failure \<Rightarrow> False
           | Inr a \<Rightarrow>
               chartData a = processChartData nts (to_json ws) (req_chartType req)
                               (req_xAxis req) (req_yAxis req) (req_zAxis req) (req_colors req) \<and>
               insights_a a = generateInsights nts (to_json ws)
                               (req_xAxis req) (req_yAxis req) (req_zAxis req)))"
proof -
  note c = chosen_sheet_default[OF assms(2)]
  have a: "create_chart nts readFile to_json user (Some file) (req \<lparr> req_worksheetName := None \<rparr>) =
         create_chart nts readFile to_json user (Some file) (req \<lparr> req_worksheetName := Some first \<rparr>)"
    using assms(1) c by (simp add: create_chart_def Let_def split: list.split option.split)
  have b: "create_chart nts readFile to_json user (Some file) (req \<lparr> req_worksheetName := Some [] \<rparr>) =
         create_chart nts readFile to_json user (Some file) (req \<lparr> req_worksheetName := Some first \<rparr>)"
    using assms(1) c by (simp add: create_chart_def Let_def split: list.split option.split)
  have d: "may_read user file \<Longrightarrow> status file = completed \<Longrightarrow> Sheets wb first = Some ws \<Longrightarrow>
          to_json ws = r # rs \<Longrightarrow>
          column (req_xAxis req) \<in> set (object_keys r) \<Longrightarrow>
          column (req_yAxis req) \<in> set (object_keys r) \<Longrightarrow>
          \<not> z_missing (req_zAxis req) (object_keys r) \<Longrightarrow>
          req_chartType req \<in> set chart_types \<Longrightarrow>
          (case create_chart nts readFile to_json user (Some file) (req \<lparr> req_worksheetName := None \<rparr>) of
             Inl failure \<Rightarrow> False
           | Inr a \<Rightarrow>
               chartData a = processChartData nts (to_json ws) (req_chartType req)
                               (req_xAxis req) (req_yAxis req) (req_zAxis req) (req_colors req) \<and>
               insights_a a = generateInsights nts (to_json ws)
                               (req_xAxis req) (req_yAxis req) (req_zAxis req))"
    using assms(1) c by (simp add: create_chart_def Let_def sheet_rows_def split: list.split option.split)
  from a b d show ?thesis by blast
qed


text \<open>The theorem at a bar chart request without worksheet name on a workbook of two sheets.\<close>

theorem create_chart_first_sheet_witness:
  "SheetNames two_sheets = ''Sales'' # [''Notes'']
   \<and> create_chart integer_string (\<lambda>path. Inr two_sheets) rows_of user1 (Some ready_file)
        (bar_request \<lparr> req_worksheetName := None \<rparr>)
     = create_chart integer_string (\<lambda>path. Inr two_sheets) rows_of user1 (Some ready_file)
        (bar_request \<lparr> req_worksheetName := Some ''Sales'' \<rparr>)
   \<and> (case create_chart integer_string (\<lambda>path. Inr two_sheets) rows_of user1 (Some ready_file)
          (bar_request \<lparr> req_worksheetName := None \<rparr>) of
        Inl failure \<Rightarrow> False
      | Inr a \<Rightarrow>
          chartData a = processChartData integer_string
            (xy_rows [(Str ''East'', Num 100), (Str ''West'', Num 200)]) ''bar'' x_axis y_axis None None)"
proof -
  let ?rf = "\<lambda>path :: string. (Inr two_sheets :: string + workbook)"
  let ?ws = "\<lparr> ref = Some \<lparr> s_r = 0, s_c = 0, e_r = 2, e_c = 1 \<rparr>, cells = (\<lambda>a. None) \<rparr>"
  let ?r = "[(''X'', Str ''East''), (''Y'', Num 100)]"
  let ?rs = "[[(''X'', Str ''West''), (''Y'', Num 200)]]"
  have rd: "?rf (filePath ready_file) = Inr two_sheets" by simp
  have names: "SheetNames two_sheets = ''Sales'' # [''Notes'']"
    by (simp add: two_sheets_def)
  have keys: "object_keys ?r = [''X'', ''Y'']"
    by (simp add: object_keys_def own_entries_def is_array_index_def is_digit_def)
  have rows: "rows_of ?ws = ?r # ?rs"
    by (simp add: rows_of_def xy_rows_def)
  have pre: "may_read user1 ready_file \<and> status ready_file = completed \<and>
      Sheets two_sheets ''Sales'' = Some ?ws \<and> rows_of ?ws = ?r # ?rs \<and>
      column (req_xAxis bar_request) \<in> set (object_keys ?r) \<and>
      column (req_yAxis bar_request) \<in> set (object_keys ?r) \<and>
      \<not> z_missing (req_zAxis bar_request) (object_keys ?r) \<and>
      req_chartType bar_request \<in> set chart_types"
    unfolding keys rows
    by (simp add: may_read_def ready_file_def new_file_def user1_def two_sheets_def
        bar_request_def x_axis_def y_axis_def z_missing_def chart_types_def)
  note t = create_chart_first_sheet[OF rd names,
      where nts = integer_string and to_json = rows_of and user = user1 and req = bar_request
        and ws = ?ws and r = ?r and rs = ?rs]
  have same: "create_chart integer_string ?rf rows_of user1 (Some ready_file)
        (bar_request \<lparr> req_worksheetName := None \<rparr>)
     = create_chart integer_string ?rf rows_of user1 (Some ready_file)
        (bar_request \<lparr> req_worksheetName := Some ''Sales'' \<rparr>)"
    using t by blast
  have ok: "(case create_chart integer_string ?rf rows_of user1 (Some ready_file)
          (bar_request \<lparr> req_worksheetName := None \<rparr>) of
        Inl failure \<Rightarrow> False
      | Inr a \<Rightarrow>
          chartData a = processChartData integer_string (rows_of ?ws) (req_chartType bar_request)
            (req_xAxis bar_request) (req_yAxis bar_request) (req_zAxis bar_request)
            (req_colors bar_request) \<and>
          insights_a a = generateInsights integer_string (rows_of ?ws)
            (req_xAxis bar_request) (req_yAxis bar_request) (req_zAxis bar_request))"
    using t pre by blast
  have ok': "(case create_chart integer_string ?rf rows_of user1 (Some ready_file)
          (bar_request \<lparr> req_worksheetName := None \<rparr>) of
        Inl failure \<Rightarrow> False
      | Inr a \<Rightarrow>
          chartData a = processChartData integer_string
            (xy_rows [(Str ''East'', Num 100), (Str ''West'', Num 200)]) ''bar'' x_axis y_axis None None)"
    using ok by (simp add: rows_of_def bar_request_def split: sum.splits)
  from names same ok' show ?thesis by blast
qed



section \<open>Frame of the analytics routes\<close>

lemma get_analytics_result:
  assumes "db ident = Some a"
    and "get_analytics owner_exists user db ident = (Inr shown, db')"
  shows "shown = a \<lparr> viewCount := viewCount a + 1 \<rparr>" and "db' = db (ident \<mapsto> shown)"
  using assms by (auto simp: get_analytics_def Let_def split: if_splits)

lemma get_analytics_failure:
  "get_analytics owner_exists user db ident = (Inl failure, db') \<Longrightarrow> db' = db"
  by (auto simp: get_analytics_def Let_def split: option.splits if_splits)

lemma put_analytics_failure:
  "put_analytics user db ident body = (Inl failure, db') \<Longrightarrow> db' = db"
  by (auto simp: put_analytics_def Let_def split: option.splits if_splits)

lemma fixed_part_updates:
  "fixed_part (a \<lparr> viewCount := n \<rparr>) = fixed_part a"
  "fixed_part (a \<lparr> isBookmarked := flag \<rparr>) = fixed_part a"
  "fixed_part (a \<lparr> shareSettings := s \<rparr>) = fixed_part a"
  "fixed_part (a \<lparr> chartConfig := (chartConfig a) \<lparr> cfg_title := t \<rparr> \<rparr>) = fixed_part a"
  "fixed_part (a \<lparr> chartConfig := (chartConfig a) \<lparr> cfg_colors := cs \<rparr> \<rparr>) = fixed_part a"
  by (simp_all add: fixed_part_def)

lemma viewCount_updates:
  "viewCount (a \<lparr> isBookmarked := flag \<rparr>) = viewCount a"
  "viewCount (a \<lparr> shareSettings := s \<rparr>) = viewCount a"
  "viewCount (a \<lparr> chartConfig := c \<rparr>) = viewCount a"
  by simp_all

lemma put_analytics_result:
  assumes "db ident = Some a"
    and "put_analytics user db ident body = (Inr changed, db')"
  shows "db' = db (ident \<mapsto> changed)" and "fixed_part changed = fixed_part a"
    and "viewCount changed = viewCount a"
proof -
  define a1 where "a1 = (case title_u body of
                        Some t \<Rightarrow> if t \<noteq> [] then a \<lparr> chartConfig := (chartConfig a) \<lparr> cfg_title := t \<rparr> \<rparr>
                                  else a
                      | None \<Rightarrow> a)"
  define a2 where "a2 = (case colors_u body of
                        Some cs \<Rightarrow> a1 \<lparr> chartConfig := (chartConfig a1) \<lparr> cfg_colors := cs \<rparr> \<rparr>
                      | None \<Rightarrow> a1)"
  define a3 where "a3 = (case isBookmarked_u body of
                        Some b \<Rightarrow> a2 \<lparr> isBookmarked := b \<rparr>
                      | None \<Rightarrow> a2)"
  define a4 where "a4 = (case shareSettings_u body of
                        Some patch \<Rightarrow> a3 \<lparr> shareSettings := merge_share (shareSettings a3) patch \<rparr>
                      | None \<Rightarrow> a3)"
  have res: "changed = a4" "db' = db (ident \<mapsto> a4)"
    using assms unfolding put_analytics_def Let_def a4_def a3_def a2_def a1_def
    by (auto split: if_splits)
  have f1: "fixed_part a1 = fixed_part a" "viewCount a1 = viewCount a"
    unfolding a1_def by (simp_all add: fixed_part_updates split: option.split)
  have f2: "fixed_part a2 = fixed_part a1" "viewCount a2 = viewCount a1"
    unfolding a2_def by (simp_all add: fixed_part_updates split: option.split)
  have f3: "fixed_part a3 = fixed_part a2" "viewCount a3 = viewCount a2"
    unfolding a3_def by (simp_all add: fixed_part_updates split: option.split)
  have f4: "fixed_part a4 = fixed_part a3" "viewCount a4 = viewCount a3"
    unfolding a4_def by (simp_all add: fixed_part_updates split: option.split)
  show "db' = db (ident \<mapsto> changed)" using res by simp
  show "fixed_part changed = fixed_part a" using res f1 f2 f3 f4 by simp
  show "viewCount changed = viewCount a" using res f1 f2 f3 f4 by simp
qed

lemma delete_analytics_store:
  "snd (delete_analytics user db ident) = db \<or>
   snd (delete_analytics user db ident) = db (ident := None)"
  by (simp add: delete_analytics_def split: option.split)

lemma serve_fixed:
  assumes "serve owner_exists db req ident = Some b"
  shows "\<exists>a. db ident = Some a \<and> fixed_part b = fixed_part a"
proof (cases req)
  case (Get user target)
  obtain res db' where g: "get_analytics owner_exists user db target = (res, db')"
    by (cases "get_analytics owner_exists user db target")
  then have b: "db' ident = Some b" using assms Get by simp
  show ?thesis
  proof (cases res)
    case (Inl failure)
    then show ?thesis using g b get_analytics_failure by metis
  next
    case (Inr shown)
    then obtain a where a: "db target = Some a"
      using g by (auto simp: get_analytics_def split: option.splits)
    from get_analytics_result[OF a g[unfolded Inr]]
    have "shown = a \<lparr> viewCount := viewCount a + 1 \<rparr>" "db' = db (target \<mapsto> shown)" .
    then show ?thesis
      using a b by (cases "ident = target") (auto simp: fixed_part_updates)
  qed
next
  case (Put user target body)
  obtain res db' where p: "put_analytics user db target body = (res, db')"
    by (cases "put_analytics user db target body")
  then have b: "db' ident = Some b" using assms Put by simp
  show ?thesis
  proof (cases res)
    case (Inl failure)
    then show ?thesis using p b put_analytics_failure by metis
  next
    case (Inr changed)
    then obtain a where a: "db target = Some a"
      using p by (auto simp: put_analytics_def split: option.splits)
    from put_analytics_result[OF a p[unfolded Inr]]
    have "db' = db (target \<mapsto> changed)" "fixed_part changed = fixed_part a" by simp_all
    then show ?thesis
      using a b by (cases "ident = target") auto
  qed
next
  case (Delete user target)
  then have "snd (delete_analytics user db target) ident = Some b"
    using assms by simp
  then show ?thesis
    using delete_analytics_store[of user db target] by (auto split: if_splits)
qed

lemma serve_all_fixed:
  "serve_all owner_exists db reqs ident = Some b \<Longrightarrow>
   \<exists>a. db ident = Some a \<and> fixed_part b = fixed_part a"
proof (induction reqs arbitrary: b rule: rev_induct)
  case Nil
  then show ?case by (simp add: serve_all_def)
next
  case (snoc req reqs)
  from snoc.prems have "serve owner_exists (serve_all owner_exists db reqs) req ident = Some b"
    by (simp add: serve_all_def)
  then obtain m where m: "serve_all owner_exists db reqs ident = Some m"
    and mb: "fixed_part b = fixed_part m"
    using serve_fixed by blast
  from snoc.IH[OF m] mb show ?case by auto
qed

text \<open>
  Claim C9. Whatever sequence of read, update and delete requests is served, a document
  that is still stored has the file, owner, chart type, axis selections, chart data, insights
  and download counter it had before: only its title, colors, bookmark flag, share settings
  and view counter can differ. A successful read stores and returns the document with the
  view counter increased by exactly 1 and everything else unchanged; a read that fails
  leaves the store as it was; a successful update leaves the view counter and the fixed
  fields unchanged.
\<close>

theorem analytics_frame:
  "(db ident = Some a \<and> serve_all owner_exists db reqs ident = Some b \<longrightarrow>
      fixed_part b = fixed_part a)
   \<and> (db ident = Some a \<and> get_analytics owner_exists user db ident = (Inr shown, db') \<longrightarrow>
      shown = a \<lparr> viewCount := viewCount a + 1 \<rparr> \<and>
      db' = db (ident \<mapsto> shown) \<and>
      viewCount shown = viewCount a + 1 \<and>
      chartType_a shown = chartType_a a \<and>
      chartConfig shown = chartConfig a \<and>
      chartData shown = chartData a \<and>
      insights_a shown = insights_a a)
   \<and> (get_analytics owner_exists user db ident = (Inl failure, db') \<longrightarrow> db' = db)
   \<and> (db ident = Some a \<and> put_analytics user db ident body = (Inr changed, db') \<longrightarrow>
      db' = db (ident \<mapsto> changed) \<and>
      fixed_part changed = fixed_part a \<and>
      viewCount changed = viewCount a)"
proof -
  have frame: "db ident = Some a \<Longrightarrow> serve_all owner_exists db reqs ident = Some b \<Longrightarrow>
      fixed_part b = fixed_part a"
    using serve_all_fixed[of owner_exists db reqs ident b] by auto
  have get: "db ident = Some a \<Longrightarrow> get_analytics owner_exists user db ident = (Inr shown, db') \<Longrightarrow>
      shown = a \<lparr> viewCount := viewCount a + 1 \<rparr> \<and>
      db' = db (ident \<mapsto> shown) \<and>
      viewCount shown = viewCount a + 1 \<and>
      chartType_a shown = chartType_a a \<and>
      chartConfig shown = chartConfig a \<and>
      chartData shown = chartData a \<and>
      insights_a shown = insights_a a"
    using get_analytics_result[of db ident a owner_exists user shown db'] by simp
  have get_fail: "get_analytics owner_exists user db ident = (Inl failure, db') \<Longrightarrow> db' = db"
    by (rule get_analytics_failure)
  have put: "db ident = Some a \<Longrightarrow> put_analytics user db ident body = (Inr changed, db') \<Longrightarrow>
      db' = db (ident \<mapsto> changed) \<and> fixed_part changed = fixed_part a \<and>
      viewCount changed = viewCount a"
    using put_analytics_result[of db ident a user body changed db'] by simp
  from frame get get_fail put show ?thesis by blast
qed


text \<open>
  The theorem at a stored document that its owner reads and then renames and bookmarks: the
  view counter goes from 3 to 4 and the fixed fields stay.
\<close>

theorem analytics_frame_witness:
  "[''a1'' \<mapsto> stored] ''a1'' = Some stored
   \<and> get_analytics (\<lambda>u. True) user1 [''a1'' \<mapsto> stored] ''a1''
       = (Inr (stored \<lparr> viewCount := 4 \<rparr>), [''a1'' \<mapsto> stored \<lparr> viewCount := 4 \<rparr>])
   \<and> chartData (stored \<lparr> viewCount := 4 \<rparr>) = chartData stored
   \<and> map_option viewCount
        (serve_all (\<lambda>u. True) [''a1'' \<mapsto> stored]
          [Get user1 ''a1'',
           Put user1 ''a1'' \<lparr> title_u = Some ''Sales'', colors_u = None, isBookmarked_u = Some True,
                               shareSettings_u = None \<rparr>] ''a1'') = Some 4
   \<and> map_option fixed_part
        (serve_all (\<lambda>u. True) [''a1'' \<mapsto> stored]
          [Get user1 ''a1'',
           Put user1 ''a1'' \<lparr> title_u = Some ''Sales'', colors_u = None, isBookmarked_u = Some True,
                               shareSettings_u = None \<rparr>] ''a1'') = Some (fixed_part stored)"
proof -
  let ?db = "[''a1'' \<mapsto> stored]"
  let ?body = "\<lparr> title_u = Some ''Sales'', colors_u = None, isBookmarked_u = Some True,
                 shareSettings_u = None \<rparr>"
  let ?reqs = "[Get user1 ''a1'', Put user1 ''a1'' ?body]"
  let ?b = "stored \<lparr> viewCount := 4, chartConfig := (chartConfig stored) \<lparr> cfg_title := ''Sales'' \<rparr>,
                    isBookmarked := True \<rparr>"
  have own: "userId_a stored = userId user1" "viewCount stored = 3"
    by (simp_all add: stored_def user1_def)
  have g: "get_analytics (\<lambda>u. True) user1 ?db ''a1'' =
      (Inr (stored \<lparr> viewCount := 4 \<rparr>), [''a1'' \<mapsto> stored \<lparr> viewCount := 4 \<rparr>])"
    by (simp add: get_analytics_def Let_def own)
  have p: "put_analytics user1 [''a1'' \<mapsto> stored \<lparr> viewCount := 4 \<rparr>] ''a1'' ?body
      = (Inr ?b, [''a1'' \<mapsto> ?b])"
    by (simp add: put_analytics_def Let_def own)
  have run: "serve_all (\<lambda>u. True) ?db ?reqs = [''a1'' \<mapsto> ?b]"
    by (simp add: serve_all_def g p)
  have start: "?db ''a1'' = Some stored" by simp
  have after: "serve_all (\<lambda>u. True) ?db ?reqs ''a1'' = Some ?b"
    unfolding run by simp
  from analytics_frame[of ?db "''a1''" stored "\<lambda>u. True" ?reqs ?b user1
      "stored \<lparr> viewCount := 4 \<rparr>" "[''a1'' \<mapsto> stored \<lparr> viewCount := 4 \<rparr>]"]
  have fixed: "fixed_part ?b = fixed_part stored"
    and shown: "chartData (stored \<lparr> viewCount := 4 \<rparr>) = chartData stored"
    using start after g by blast+
  have count: "viewCount ?b = 4" by simp
  show ?thesis
    unfolding after using start g shown fixed count by simp
qed


end
